theory Spec2Isabelle
  imports Main "HOL-Library.Sublist"
begin

section \<open>Python values\<close>

text \<open>
  The values \<open>run_command\<close> of \<open>ocs_ci/helpers/performance_lib.py\<close> handles are
  dynamically typed: \<open>cmd\<close> may be a \<open>str\<close>, a \<open>list\<close> or anything else, \<open>out_format\<close>
  is compared with string literals, and the keyword options are a dictionary from names to
  arbitrary objects. \<open>pyval\<close> is the fragment of Python's objects the model covers
  (floats and tuples are left out). A \<open>str\<close> is a \<open>string\<close>: a \<open>char\<close> stands for a
  code point below 256.
\<close>

datatype pyval =
    PNone
  | PBool bool
  | PInt int
  | PStr string
  | PList "pyval list"
  | PDict "(pyval \<times> pyval) list"

text \<open>The captured streams of a process are \<open>bytes\<close>, not text.\<close>

datatype bytes = Bytes string

text \<open>
  Exceptions. \<open>CommandFailed\<close> is the one \<open>run_command\<close> raises itself; the others are
  raised by the calls it makes (\<open>subprocess.run\<close>, \<open>bytes.decode\<close>, the parsers, and
  attribute or index errors of the interpreter).
\<close>

datatype error =
    CommandFailed string
  | TimeoutExpired
  | FileNotFoundError
  | UnicodeDecodeError
  | JSONDecodeError
  | YAMLError
  | AttributeError
  | IndexError
  | TypeError
  | ValueError
  | OtherError string

text \<open>\<open>subprocess.CompletedProcess\<close>.\<close>

record completed_process =
  args :: "pyval list"
  returncode :: int
  stdout :: bytes
  stderr :: bytes

text \<open>What the variable \<open>output\<close> can hold when it is returned.\<close>

datatype retval = RVal pyval | RCp completed_process

datatype level = INFO | DEBUG | WARNING | ERROR

type_synonym kwargs = "string \<rightharpoonup> pyval"

text \<open>One call of \<open>subprocess.run\<close>: the argument vector, the timeout, the options.\<close>

type_synonym invocation = "pyval list \<times> pyval \<times> kwargs"

subsection \<open>Formatting: \<open>str()\<close> and \<open>repr()\<close>\<close>

definition digit_char :: "nat \<Rightarrow> char" where
  "digit_char d = char_of (48 + d)"

fun dec_digits :: "nat \<Rightarrow> string" where
  "dec_digits n =
     (if n < 10 then [digit_char n] else dec_digits (n div 10) @ [digit_char (n mod 10)])"

definition str_int :: "int \<Rightarrow> string" where
  "str_int i = (if i < 0 then CHR ''-'' # dec_digits (nat (- i)) else dec_digits (nat i))"

definition hex_digit :: "nat \<Rightarrow> char" where
  "hex_digit d = ''0123456789abcdef'' ! d"

definition hex_escape :: "nat \<Rightarrow> string" where
  "hex_escape n = [CHR 0x5C, CHR ''x'', hex_digit (n div 16), hex_digit (n mod 16)]"

text \<open>
  \<open>repr\<close> of one character of a \<open>str\<close> inside the quotes \<open>q\<close>: the quote and the backslash
  are escaped, tab, newline and carriage return have their letters, the other control
  characters and the unprintable code points (0x7f to 0xa0, and 0xad) are written \<open>\xhh\<close>.
\<close>

definition repr_char :: "char \<Rightarrow> char \<Rightarrow> string" where
  "repr_char q c =
     (let n = (of_char c :: nat) in
      if c = q \<or> c = CHR 0x5C then [CHR 0x5C, c]
      else if n = 9 then [CHR 0x5C, CHR ''t'']
      else if n = 10 then [CHR 0x5C, CHR ''n'']
      else if n = 13 then [CHR 0x5C, CHR ''r'']
      else if n < 32 \<or> n = 127 then hex_escape n
      else if n < 127 then [c]
      else if n \<le> 160 \<or> n = 173 then hex_escape n
      else [c])"

text \<open>Single quotes, unless the text has a single quote and no double quote.\<close>

definition repr_str :: "string \<Rightarrow> string" where
  "repr_str s =
     (let q = (if CHR 0x27 \<in> set s \<and> CHR 0x22 \<notin> set s then CHR 0x22 else CHR 0x27)
      in q # concat (map (repr_char q) s) @ [q])"

fun join_str :: "string \<Rightarrow> string list \<Rightarrow> string" where
  "join_str sep [] = []"
| "join_str sep [x] = x"
| "join_str sep (x # y # ys) = x @ sep @ join_str sep (y # ys)"

fun py_repr :: "pyval \<Rightarrow> string" where
  "py_repr PNone = ''None''"
| "py_repr (PBool b) = (if b then ''True'' else ''False'')"
| "py_repr (PInt i) = str_int i"
| "py_repr (PStr s) = repr_str s"
| "py_repr (PList xs) = ''['' @ join_str '', '' (map py_repr xs) @ '']''"
| "py_repr (PDict kvs) =
     ''{'' @ join_str '', '' (map (\<lambda>(k, v). py_repr k @ '': '' @ py_repr v) kvs) @ ''}''"

text \<open>What an f-string puts in place of \<open>{v}\<close>: \<open>str(v)\<close>.\<close>

definition py_str :: "pyval \<Rightarrow> string" where
  "py_str v = (case v of PStr s \<Rightarrow> s | _ \<Rightarrow> py_repr v)"

subsection \<open>Splitting\<close>

text \<open>
  \<open>str.isspace\<close> on the code points below 256: tab to carriage return, the four
  separators 0x1c to 0x1f, the space, NEL (0x85) and the no-break space (0xa0).
\<close>

definition isspace :: "char \<Rightarrow> bool" where
  "isspace c =
     (let n = (of_char c :: nat) in
      (9 \<le> n \<and> n \<le> 13) \<or> (28 \<le> n \<and> n \<le> 32) \<or> n = 133 \<or> n = 160)"

text \<open>
  \<open>s.split()\<close>: the maximal runs of characters that are not whitespace. \<open>tok\<close> is the
  run being read.
\<close>

fun split_ws_acc :: "string \<Rightarrow> string \<Rightarrow> string list" where
  "split_ws_acc tok [] = (if tok = [] then [] else [tok])"
| "split_ws_acc tok (c # cs) =
     (if isspace c then (if tok = [] then split_ws_acc [] cs else tok # split_ws_acc [] cs)
      else split_ws_acc (tok @ [c]) cs)"

definition split_ws :: "string \<Rightarrow> string list" where
  "split_ws s = split_ws_acc [] s"

text \<open>\<open>s.split(sep)\<close> for a separator of one character: always at least one piece.\<close>

fun split_sep_acc :: "char \<Rightarrow> string \<Rightarrow> string \<Rightarrow> string list" where
  "split_sep_acc sep tok [] = [tok]"
| "split_sep_acc sep tok (c # cs) =
     (if c = sep then tok # split_sep_acc sep [] cs else split_sep_acc sep (tok @ [c]) cs)"

definition split_sep :: "char \<Rightarrow> string \<Rightarrow> string list" where
  "split_sep sep s = split_sep_acc sep [] s"

section \<open>The collaborators of \<open>run_command\<close>\<close>

text \<open>
  \<open>run_command\<close> calls five functions that are not in the file: \<open>mask_secrets\<close> of
  \<open>ocs_ci.utility.utils\<close>, \<open>subprocess.run\<close>, \<open>bytes.decode\<close>, \<open>json.loads\<close> and
  \<open>yaml.safe_load\<close>. They are parameters of the model; every theorem about \<open>run_command\<close>
  holds for all of them. The calls that can raise return \<open>error + _\<close>.
\<close>

text \<open>
  Modelled from the spec: \<open>mask_secrets\<close> is not among the sources. The spec describes it
  as a service that, given a string or sequence and a list of literal secrets, returns the
  same shape with each secret occurrence replaced by a mask; so the field \<open>mask_secrets\<close>
  is a total function from a value and the secrets (\<open>None\<close> or a list) to a value.
\<close>

record env =
  mask_secrets :: "pyval \<Rightarrow> pyval \<Rightarrow> pyval"
  subprocess_run :: "pyval list \<Rightarrow> pyval \<Rightarrow> kwargs \<Rightarrow> error + completed_process"
  decode :: "bytes \<Rightarrow> error + string"
  json_loads :: "string \<Rightarrow> error + pyval"
  yaml_safe_load :: "string \<Rightarrow> error + pyval"

text \<open>
  What one call of \<open>run_command\<close> does: it returns or raises (\<open>result\<close>), it passes
  messages to the logger (\<open>logged\<close>, in order), and it spawns processes (\<open>spawned\<close>).
\<close>

record outcome =
  result :: "error + retval"
  logged :: "(level \<times> string) list"
  spawned :: "invocation list"

section \<open>\<open>run_command\<close>\<close>

definition bind_error :: "error + 'a \<Rightarrow> ('a \<Rightarrow> error + 'b) \<Rightarrow> error + 'b" where
  "bind_error r f = (case r of Inl e \<Rightarrow> Inl e | Inr x \<Rightarrow> f x)"

text \<open>
  Lines 87 to 92: a \<open>str\<close> is split on whitespace, a \<open>list\<close> is taken as it is, and for
  anything else there is no argument vector.
\<close>

fun argument_vector :: "pyval \<Rightarrow> pyval list option" where
  "argument_vector (PStr s) = Some (map PStr (split_ws s))"
| "argument_vector (PList xs) = Some xs"
| "argument_vector _ = None"

text \<open>\<open>subprocess.PIPE\<close> is the integer -1.\<close>

definition PIPE :: pyval where
  "PIPE = PInt (- 1)"

text \<open>Lines 94 and 95.\<close>

definition force_pipes :: "kwargs \<Rightarrow> kwargs" where
  "force_pipes kw = kw(''stdout'' \<mapsto> PIPE, ''stderr'' \<mapsto> PIPE, ''stdin'' \<mapsto> PIPE)"

text \<open>Lines 97 to 99: the format that is used, and the options that are forwarded.\<close>

definition select_out_format :: "pyval \<Rightarrow> kwargs \<Rightarrow> pyval" where
  "select_out_format out_format kw =
     (case kw ''out_format'' of Some v \<Rightarrow> v | None \<Rightarrow> out_format)"

definition forwarded_kwargs :: "kwargs \<Rightarrow> kwargs" where
  "forwarded_kwargs kw =
     (let kw1 = force_pipes kw in
      case kw1 ''out_format'' of Some v \<Rightarrow> kw1(''out_format'' := None) | None \<Rightarrow> kw1)"

text \<open>Lines 106 to 118: the three messages about the streams and the exit code.\<close>

definition stream_log ::
  "env \<Rightarrow> pyval \<Rightarrow> completed_process \<Rightarrow> string \<Rightarrow> string \<Rightarrow> (level \<times> string) list"
where
  "stream_log env secrets cp output err =
     (let masked_stdout = mask_secrets env (PStr output) secrets;
          masked_stderr = mask_secrets env (PStr err) secrets
      in [if length output > 0 then (DEBUG, ''Command stdout: '' @ py_str masked_stdout)
          else (DEBUG, ''Command stdout is empty''),
          if length err > 0 then (WARNING, ''Command stderr: '' @ py_str masked_stderr)
          else (DEBUG, ''Command stderr is empty''),
          (DEBUG, ''Command return code: '' @ py_str (PInt (returncode cp)))])"

text \<open>Line 122, and the increment of \<open>output\<close> on line 123.\<close>

definition nonzero_message :: "int \<Rightarrow> string \<Rightarrow> string" where
  "nonzero_message rc err = ''Command finished with non zero ('' @ py_str (PInt rc) @ ''): '' @ err"

definition error_annotation :: "int \<Rightarrow> string \<Rightarrow> string" where
  "error_annotation rc err = ''Error in command ('' @ py_str (PInt rc) @ ''): '' @ err"

text \<open>Lines 126 and 127: the message of \<open>CommandFailed\<close>.\<close>

definition failure_message :: "pyval \<Rightarrow> pyval \<Rightarrow> string" where
  "failure_message masked_cmd masked_stderr =
     ''Error during execution of command: '' @ py_str masked_cmd @
     ''.\<newline>Error is '' @ py_str masked_stderr"

text \<open>Lines 121 to 131: the exit code is not zero.\<close>

definition nonzero_exit ::
  "pyval \<Rightarrow> pyval \<Rightarrow> pyval \<Rightarrow> bool \<Rightarrow> completed_process \<Rightarrow> string \<Rightarrow> string \<Rightarrow> error + retval"
where
  "nonzero_exit masked_cmd masked_stderr out_format ignore_error cp output err =
     (let output1 = output @ error_annotation (returncode cp) err in
      if \<not> ignore_error then Inl (CommandFailed (failure_message masked_cmd masked_stderr))
      else if out_format = PStr ''cpobj'' then Inr (RCp cp)
      else Inr (RVal (PStr output1)))"

text \<open>
  \<open>output.split("\n")\<close>, \<open>output.pop()\<close> and the two parsers, on whatever \<open>output\<close>
  holds: an object without the method raises \<open>AttributeError\<close>, \<open>pop\<close> on an empty list
  raises \<open>IndexError\<close>, and \<open>json.loads\<close> of an object that is not text raises
  \<open>TypeError\<close>.
\<close>

fun call_split :: "retval \<Rightarrow> error + retval" where
  "call_split (RVal (PStr s)) = Inr (RVal (PList (map PStr (split_sep CHR ''\<newline>'' s))))"
| "call_split _ = Inl AttributeError"

fun call_pop :: "retval \<Rightarrow> error + retval" where
  "call_pop (RVal (PList xs)) = (if xs = [] then Inl IndexError else Inr (RVal (PList (butlast xs))))"
| "call_pop _ = Inl AttributeError"

fun call_json_loads :: "env \<Rightarrow> retval \<Rightarrow> error + retval" where
  "call_json_loads env (RVal (PStr s)) = bind_error (json_loads env s) (\<lambda>v. Inr (RVal v))"
| "call_json_loads env _ = Inl TypeError"

fun call_yaml_safe_load :: "env \<Rightarrow> retval \<Rightarrow> error + retval" where
  "call_yaml_safe_load env (RVal (PStr s)) = bind_error (yaml_safe_load env s) (\<lambda>v. Inr (RVal v))"
| "call_yaml_safe_load env _ = Inl AttributeError"

text \<open>Lines 132 to 147: the exit code is zero. The five tests run one after the other.\<close>

definition zero_exit :: "env \<Rightarrow> pyval \<Rightarrow> completed_process \<Rightarrow> string \<Rightarrow> error + retval" where
  "zero_exit env out_format cp output =
     (let output1 = (if out_format = PStr ''exit_code'' then RVal (PInt (returncode cp))
                     else RVal (PStr output));
          output2 = (if out_format = PStr ''cpobj'' then RCp cp else output1)
      in bind_error
           (if out_format = PStr ''list'' then bind_error (call_split output2) call_pop
            else Inr output2)
           (\<lambda>output3.
              bind_error
                (if out_format = PStr ''json'' then call_json_loads env output3 else Inr output3)
                (\<lambda>output4.
                   if out_format = PStr ''yaml'' then call_yaml_safe_load env output4 else Inr output4)))"

text \<open>Lines 103 to 149: from the decoding of the streams to the return.\<close>

definition after_run ::
  "env \<Rightarrow> pyval \<Rightarrow> pyval \<Rightarrow> pyval \<Rightarrow> bool \<Rightarrow> completed_process \<Rightarrow>
   (error + retval) \<times> (level \<times> string) list"
where
  "after_run env masked_cmd out_format secrets ignore_error cp =
     (case decode env (stdout cp) of
        Inl e \<Rightarrow> (Inl e, [])
      | Inr output \<Rightarrow>
          (case decode env (stderr cp) of
             Inl e \<Rightarrow> (Inl e, [])
           | Inr err \<Rightarrow>
               (let masked_stderr = mask_secrets env (PStr err) secrets;
                    log3 = stream_log env secrets cp output err
                in if returncode cp \<noteq> 0
                   then (nonzero_exit masked_cmd masked_stderr out_format ignore_error cp output err,
                         log3 @ [(ERROR, nonzero_message (returncode cp) err)])
                   else (zero_exit env out_format cp output, log3))))"

text \<open>
  The body of the function, lines 85 to 149, on the values its parameters are bound to
  when it starts: \<open>cmd\<close>, \<open>timeout\<close>, \<open>out_format\<close> and \<open>secrets\<close> are objects,
  \<open>ignore_error\<close> is read only through \<open>not ignore_error\<close>, and \<open>kw\<close> is the dictionary
  \<open>kwargs\<close>. Which values a call binds, and which dictionary it leaves in \<open>kwargs\<close>, is
  the matter of \<open>call_run_command\<close> below.
\<close>

definition run_command ::
  "env \<Rightarrow> pyval \<Rightarrow> pyval \<Rightarrow> pyval \<Rightarrow> pyval \<Rightarrow> bool \<Rightarrow> kwargs \<Rightarrow> outcome"
where
  "run_command env cmd timeout out_format secrets ignore_error kw =
     (let masked_cmd = mask_secrets env cmd secrets;
          log1 = [(INFO, ''Executing command: '' @ py_str masked_cmd)]
      in case argument_vector cmd of
           None \<Rightarrow> \<lparr>result = Inr (RVal (PStr ''Error in command'')), logged = log1, spawned = []\<rparr>
         | Some command \<Rightarrow>
             (let out_format1 = select_out_format out_format (force_pipes kw);
                  kw1 = forwarded_kwargs kw;
                  log2 = log1 @ [(INFO, ''Formatting output as '' @ py_str out_format1)]
              in case subprocess_run env command timeout kw1 of
                   Inl e \<Rightarrow> \<lparr>result = Inl e, logged = log2, spawned = [(command, timeout, kw1)]\<rparr>
                 | Inr cp \<Rightarrow>
                     (let (r, log3) = after_run env masked_cmd out_format1 secrets ignore_error cp
                      in \<lparr>result = r, logged = log2 @ log3, spawned = [(command, timeout, kw1)]\<rparr>)))"

section \<open>The call of \<open>run_command\<close>\<close>

text \<open>
  Lines 48 to 50: the signature is \<open>cmd\<close>, \<open>timeout=600\<close>, \<open>out_format="string"\<close>,
  \<open>secrets=None\<close>, \<open>ignore_error=False\<close> and \<open>**kwargs\<close>. A call gives positional
  arguments and keyword arguments. Python binds the positional arguments to the parameters
  in order, then each keyword argument that has the name of a parameter to that parameter,
  and leaves the other keyword arguments in \<open>kwargs\<close>. The call raises \<open>TypeError\<close>, before
  the body starts, when there are more than five positional arguments, when a parameter
  gets a value both ways, or when \<open>cmd\<close> gets none.
\<close>

definition parameter_names :: "string list" where
  "parameter_names = [''cmd'', ''timeout'', ''out_format'', ''secrets'', ''ignore_error'']"

record bound =
  b_cmd :: pyval
  b_timeout :: pyval
  b_out_format :: pyval
  b_secrets :: pyval
  b_ignore_error :: pyval
  b_kwargs :: kwargs

definition or_default :: "pyval option \<Rightarrow> pyval \<Rightarrow> pyval" where
  "or_default given d = (case given of Some v \<Rightarrow> v | None \<Rightarrow> d)"

definition bind_arguments :: "pyval list \<Rightarrow> kwargs \<Rightarrow> error + bound" where
  "bind_arguments positional keywords =
     (let by_position = map_of (zip parameter_names positional);
          given = (\<lambda>p. case by_position p of Some v \<Rightarrow> Some v | None \<Rightarrow> keywords p)
      in if length positional > length parameter_names then Inl TypeError
         else if list_ex (\<lambda>p. by_position p \<noteq> None \<and> keywords p \<noteq> None) parameter_names
           then Inl TypeError
         else case given ''cmd'' of
                None \<Rightarrow> Inl TypeError
              | Some c \<Rightarrow>
                  Inr \<lparr>b_cmd = c,
                       b_timeout = or_default (given ''timeout'') (PInt 600),
                       b_out_format = or_default (given ''out_format'') (PStr ''string''),
                       b_secrets = or_default (given ''secrets'') PNone,
                       b_ignore_error = or_default (given ''ignore_error'') (PBool False),
                       b_kwargs = (\<lambda>k. if k \<in> set parameter_names then None else keywords k)\<rparr>)"

text \<open>The truth value of an object, as \<open>not ignore_error\<close> on line 124 reads it.\<close>

fun truthy :: "pyval \<Rightarrow> bool" where
  "truthy PNone = False"
| "truthy (PBool b) = b"
| "truthy (PInt i) = (i \<noteq> 0)"
| "truthy (PStr s) = (s \<noteq> [])"
| "truthy (PList xs) = (xs \<noteq> [])"
| "truthy (PDict kvs) = (kvs \<noteq> [])"

text \<open>A call: the binding, then the body. A call that does not bind logs and spawns nothing.\<close>

definition call_run_command :: "env \<Rightarrow> pyval list \<Rightarrow> kwargs \<Rightarrow> outcome" where
  "call_run_command env positional keywords =
     (case bind_arguments positional keywords of
        Inl e \<Rightarrow> \<lparr>result = Inl e, logged = [], spawned = []\<rparr>
      | Inr b \<Rightarrow>
          run_command env (b_cmd b) (b_timeout b) (b_out_format b) (b_secrets b)
            (truthy (b_ignore_error b)) (b_kwargs b))"

section \<open>An environment to run the model in\<close>

text \<open>
  Modelled from the spec: \<open>mask_secrets\<close> is not among the sources. Following the spec's
  words, each occurrence of each secret is replaced by a mask of fixed width (five
  asterisks here), in a string or in every string of a sequence; without secrets
  nothing is masked, and a value of another shape is left as it is. The secrets are the
  strings of the list \<open>secrets\<close>; \<open>None\<close> has none.
\<close>

fun replace_scan :: "string \<Rightarrow> string \<Rightarrow> nat \<Rightarrow> string \<Rightarrow> string" where
  "replace_scan old new k [] = []"
| "replace_scan old new (Suc k) (c # cs) = replace_scan old new k cs"
| "replace_scan old new 0 (c # cs) =
     (if prefix old (c # cs) then new @ replace_scan old new (length old - 1) cs
      else c # replace_scan old new 0 cs)"

definition str_replace :: "string \<Rightarrow> string \<Rightarrow> string \<Rightarrow> string" where
  "str_replace old new s =
     (if old = [] then new @ concat (map (\<lambda>c. c # new) s) else replace_scan old new 0 s)"

fun mask_str :: "string list \<Rightarrow> string \<Rightarrow> string" where
  "mask_str [] s = s"
| "mask_str (x # xs) s = mask_str xs (str_replace x ''*****'' s)"

fun mask_item :: "string list \<Rightarrow> pyval \<Rightarrow> pyval" where
  "mask_item S (PStr s) = PStr (mask_str S s)"
| "mask_item S v = v"

fun secret_strings :: "pyval \<Rightarrow> string list" where
  "secret_strings (PList (PStr s # xs)) = s # secret_strings (PList xs)"
| "secret_strings (PList (x # xs)) = secret_strings (PList xs)"
| "secret_strings _ = []"

fun mask_secrets_spec :: "pyval \<Rightarrow> pyval \<Rightarrow> pyval" where
  "mask_secrets_spec (PStr s) secrets = PStr (mask_str (secret_strings secrets) s)"
| "mask_secrets_spec (PList xs) secrets = PList (map (mask_item (secret_strings secrets)) xs)"
| "mask_secrets_spec v secrets = v"

text \<open>
  \<open>bytes.decode\<close> on ASCII, where UTF-8 (the codec \<open>run_command\<close> uses) and ASCII
  agree; a byte from 0x80 on is refused here.
\<close>

fun ascii_decode :: "bytes \<Rightarrow> error + string" where
  "ascii_decode (Bytes s) =
     (if list_all (\<lambda>c. (of_char c :: nat) < 128) s then Inr s else Inl UnicodeDecodeError)"

text \<open>
  The environment in which every process ends with the exit code \<open>rc\<close>, having written
  \<open>out\<close> and \<open>err\<close>. Its parsers refuse every text.
\<close>

definition process_env :: "int \<Rightarrow> string \<Rightarrow> string \<Rightarrow> env" where
  "process_env rc out err =
     \<lparr>mask_secrets = mask_secrets_spec,
      subprocess_run = (\<lambda>command timeout kw.
         Inr \<lparr>args = command, returncode = rc, stdout = Bytes out, stderr = Bytes err\<rparr>),
      decode = ascii_decode,
      json_loads = (\<lambda>s. Inl JSONDecodeError),
      yaml_safe_load = (\<lambda>s. Inl YAMLError)\<rparr>"

section \<open>Notions used in the statements\<close>

text \<open>\<open>isinstance(cmd, str)\<close> and \<open>isinstance(cmd, list)\<close>.\<close>

fun is_str :: "pyval \<Rightarrow> bool" where
  "is_str (PStr s) = True"
| "is_str _ = False"

fun is_list :: "pyval \<Rightarrow> bool" where
  "is_list (PList xs) = True"
| "is_list _ = False"

text \<open>
  The arguments of a well-formed command: none is empty, none holds whitespace. Joined
  by single spaces they are the command as one string.
\<close>

definition well_formed_args :: "string list \<Rightarrow> bool" where
  "well_formed_args toks = list_all (\<lambda>t. t \<noteq> [] \<and> list_all (\<lambda>c. \<not> isspace c) t) toks"

text \<open>A result without the text of a \<open>CommandFailed\<close>.\<close>

fun strip_message :: "error + retval \<Rightarrow> error + retval" where
  "strip_message (Inl (CommandFailed m)) = Inl (CommandFailed [])"
| "strip_message r = r"

section \<open>Facts about the parts\<close>

lemma select_force_pipes: "select_out_format f (force_pipes kw) = select_out_format f kw"
  by (simp add: select_out_format_def force_pipes_def)

text \<open>
  When the process has ended and both streams decode, the result is that of the branch
  on the exit code.
\<close>

lemma run_command_completed:
  assumes "argument_vector cmd = Some command"
      and "subprocess_run env command timeout (forwarded_kwargs kw) = Inr cp"
      and "decode env (stdout cp) = Inr out"
      and "decode env (stderr cp) = Inr err"
  shows "result (run_command env cmd timeout out_format secrets ignore_error kw) =
           (if returncode cp \<noteq> 0
            then nonzero_exit (mask_secrets env cmd secrets) (mask_secrets env (PStr err) secrets)
                   (select_out_format out_format kw) ignore_error cp out err
            else zero_exit env (select_out_format out_format kw) cp out)"
  using assms by (simp add: run_command_def after_run_def Let_def select_force_pipes)

lemma split_sep_acc_nonempty: "split_sep_acc sep tok s \<noteq> []"
  by (induction s arbitrary: tok) auto

lemma sublist_annotation_rc: "sublist (str_int rc) (error_annotation rc err)"
proof -
  have "error_annotation rc err = ''Error in command ('' @ str_int rc @ ''): '' @ err"
    by (simp add: error_annotation_def py_str_def)
  then show ?thesis by (metis sublist_appendI)
qed

lemma sublist_annotation_err: "sublist err (error_annotation rc err)"
  unfolding error_annotation_def by (metis append.assoc sublist_append_leftI)

lemma sublist_failure_message_cmd: "sublist (py_str a) (failure_message a b)"
  unfolding failure_message_def by (rule sublist_appendI)

lemma sublist_failure_message_stderr: "sublist (py_str b) (failure_message a b)"
  unfolding failure_message_def by (metis append.assoc sublist_append_leftI)

lemma split_sep_nonempty: "split_sep sep s \<noteq> []"
  by (simp add: split_sep_def split_sep_acc_nonempty)

lemma zero_exit_exit_code:
  "zero_exit env (PStr ''exit_code'') cp out = Inr (RVal (PInt (returncode cp)))"
  by (simp add: zero_exit_def bind_error_def)

lemma zero_exit_list:
  "zero_exit env (PStr ''list'') cp out =
     Inr (RVal (PList (map PStr (butlast (split_sep CHR ''\<newline>'' out)))))"
  by (simp add: zero_exit_def bind_error_def split_sep_nonempty map_butlast)

text \<open>With the format \<open>exit_code\<close>, an integer comes only out of the branch of exit code 0.\<close>

lemma after_run_exit_code_int:
  assumes "fst (after_run env m (PStr ''exit_code'') secrets ig cp) = Inr (RVal (PInt n))"
  shows "n = 0"
  using assms
  by (auto simp add: after_run_def Let_def zero_exit_exit_code nonzero_exit_def
      split: sum.splits if_splits)

text \<open>The masked command reaches the result only through the text of \<open>CommandFailed\<close>.\<close>

lemma strip_message_after_run:
  "strip_message (fst (after_run env m1 f secrets ig cp)) =
   strip_message (fst (after_run env m2 f secrets ig cp))"
  by (simp add: after_run_def nonzero_exit_def Let_def split: sum.splits)

text \<open>Splitting the joined arguments of a well-formed command gives them back.\<close>

lemma split_ws_acc_token:
  "list_all (\<lambda>c. \<not> isspace c) t \<Longrightarrow> split_ws_acc tok (t @ rest) = split_ws_acc (tok @ t) rest"
  by (induction t arbitrary: tok) simp_all

lemma isspace_space: "isspace CHR '' ''"
  by (simp add: isspace_def)

lemma split_ws_join:
  "well_formed_args toks \<Longrightarrow> split_ws_acc [] (join_str '' '' toks) = toks"
proof (induction "'' ''" toks rule: join_str.induct)
  case 1
  then show ?case by simp
next
  case (2 x)
  then have "split_ws_acc [] (x @ []) = split_ws_acc ([] @ x) []"
    by (intro split_ws_acc_token) (simp add: well_formed_args_def)
  with 2 show ?case by (simp add: well_formed_args_def)
next
  case (3 x y ys)
  then have x: "list_all (\<lambda>c. \<not> isspace c) x" "x \<noteq> []" and rest: "well_formed_args (y # ys)"
    by (simp_all add: well_formed_args_def)
  have "split_ws_acc [] (x @ '' '' @ join_str '' '' (y # ys)) =
        split_ws_acc ([] @ x) ('' '' @ join_str '' '' (y # ys))"
    using x(1) by (rule split_ws_acc_token)
  also have "\<dots> = x # split_ws_acc [] (join_str '' '' (y # ys))"
    using x(2) isspace_space by simp
  finally show ?case using 3 rest by simp
qed

section \<open>The claims\<close>

text \<open>
  C1, as the code has it. When \<open>subprocess.run\<close> has returned the \<open>CompletedProcess\<close> of
  a process that ended with an exit code that is not zero, both captured streams decode
  (to \<open>out\<close> and \<open>err\<close>), and \<open>ignore_error\<close> is false, \<open>run_command\<close> raises
  \<open>CommandFailed\<close>, and nothing else: the result is that error, and its message holds
  the masked command and the masked standard error. \<open>cmd\<close> is a \<open>str\<close> or a \<open>list\<close>, so
  that there is a process at all.
\<close>

theorem nonzero_exit_raises_CommandFailed:
  assumes "argument_vector cmd = Some command"
      and "subprocess_run env command timeout (forwarded_kwargs kw) = Inr cp"
      and "decode env (stdout cp) = Inr out"
      and "decode env (stderr cp) = Inr err"
      and "returncode cp \<noteq> 0"
      and "\<not> ignore_error"
  shows "result (run_command env cmd timeout out_format secrets ignore_error kw) =
           Inl (CommandFailed (failure_message (mask_secrets env cmd secrets)
                                 (mask_secrets env (PStr err) secrets)))
         \<and> sublist (py_str (mask_secrets env cmd secrets))
             (failure_message (mask_secrets env cmd secrets) (mask_secrets env (PStr err) secrets))
         \<and> sublist (py_str (mask_secrets env (PStr err) secrets))
             (failure_message (mask_secrets env cmd secrets) (mask_secrets env (PStr err) secrets))"
proof -
  have "result (run_command env cmd timeout out_format secrets ignore_error kw) =
           Inl (CommandFailed (failure_message (mask_secrets env cmd secrets)
                                 (mask_secrets env (PStr err) secrets)))"
    using assms by (simp add: run_command_completed nonzero_exit_def)
  then show ?thesis
    using sublist_failure_message_cmd sublist_failure_message_stderr by blast
qed

theorem nonzero_exit_raises_CommandFailed_witness:
  "argument_vector (PStr ''deploy --token hunter2'') =
     Some [PStr ''deploy'', PStr ''--token'', PStr ''hunter2'']
   \<and> subprocess_run (process_env 1 '''' ''boom hunter2'')
        [PStr ''deploy'', PStr ''--token'', PStr ''hunter2''] (PInt 600) (forwarded_kwargs Map.empty) =
      Inr \<lparr>args = [PStr ''deploy'', PStr ''--token'', PStr ''hunter2''], returncode = 1,
           stdout = Bytes '''', stderr = Bytes ''boom hunter2''\<rparr>
   \<and> decode (process_env 1 '''' ''boom hunter2'') (Bytes '''') = Inr ''''
   \<and> decode (process_env 1 '''' ''boom hunter2'') (Bytes ''boom hunter2'') = Inr ''boom hunter2''
   \<and> result (run_command (process_env 1 '''' ''boom hunter2'') (PStr ''deploy --token hunter2'')
        (PInt 600) (PStr ''string'') (PList [PStr ''hunter2'']) False Map.empty) =
      Inl (CommandFailed
        ''Error during execution of command: deploy --token *****.\<newline>Error is boom *****'')"
proof -
  let ?env = "process_env 1 '''' ''boom hunter2''"
  let ?cp = "\<lparr>args = [PStr ''deploy'', PStr ''--token'', PStr ''hunter2''], returncode = 1,
        stdout = Bytes '''', stderr = Bytes ''boom hunter2''\<rparr>"
  have av: "argument_vector (PStr ''deploy --token hunter2'') =
     Some [PStr ''deploy'', PStr ''--token'', PStr ''hunter2'']"
    by code_simp
  have run: "subprocess_run ?env [PStr ''deploy'', PStr ''--token'', PStr ''hunter2''] (PInt 600)
     (forwarded_kwargs Map.empty) = Inr ?cp"
    by (simp add: process_env_def)
  have d1: "decode ?env (stdout ?cp) = Inr ''''"
    by (simp add: process_env_def)
  have d2: "decode ?env (stderr ?cp) = Inr ''boom hunter2''"
    by (simp add: process_env_def)
  have rc: "returncode ?cp \<noteq> 0"
    by simp
  have m1: "mask_secrets ?env (PStr ''deploy --token hunter2'') (PList [PStr ''hunter2'']) =
      PStr ''deploy --token *****''"
    unfolding process_env_def by code_simp
  have m2: "mask_secrets ?env (PStr ''boom hunter2'') (PList [PStr ''hunter2'']) = PStr ''boom *****''"
    unfolding process_env_def by code_simp
  from nonzero_exit_raises_CommandFailed
         [OF av run d1 d2 rc, of False "PStr ''string''" "PList [PStr ''hunter2'']"]
  have "result (run_command ?env (PStr ''deploy --token hunter2'') (PInt 600)
        (PStr ''string'') (PList [PStr ''hunter2'']) False Map.empty) =
     Inl (CommandFailed
       ''Error during execution of command: deploy --token *****.\<newline>Error is boom *****'')"
    unfolding m1 m2 by (simp add: failure_message_def py_str_def)
  with av run d1 d2 show ?thesis by simp
qed

text \<open>
  C1, as the claim has it, fails: the streams are decoded on lines 103 and 104, before the
  exit code is looked at on line 121. A process that ends with exit code 1 and has written
  the byte 0xff, which no UTF-8 text holds, to its standard error makes \<open>run_command\<close>
  raise \<open>UnicodeDecodeError\<close>, not \<open>CommandFailed\<close>.
\<close>

theorem undecodable_stderr_raises_UnicodeDecodeError:
  "subprocess_run (process_env 1 '''' [CHR 0xFF]) [PStr ''ls''] (PInt 600)
     (forwarded_kwargs Map.empty) =
   Inr \<lparr>args = [PStr ''ls''], returncode = 1, stdout = Bytes '''', stderr = Bytes [CHR 0xFF]\<rparr>
   \<and> result (run_command (process_env 1 '''' [CHR 0xFF]) (PStr ''ls'') (PInt 600) (PStr ''string'')
        PNone False Map.empty) = Inl UnicodeDecodeError"
  by code_simp

text \<open>
  C2 (the code leaks). With the secret \<open>hunter2\<close>, a process that ends with exit code 1
  and the standard error \<open>login hunter2 failed\<close>: the warning of line 114 has the masked
  text, and the error message of line 122 has the secret, since it is built from \<open>err\<close>
  and not from \<open>masked_stderr\<close>.
\<close>

theorem error_log_leaks_secret:
  "logged (run_command (process_env 1 ''out'' ''login hunter2 failed'') (PStr ''echo hunter2'')
     (PInt 600) (PStr ''string'') (PList [PStr ''hunter2'']) True Map.empty) =
   [(INFO, ''Executing command: echo *****''),
    (INFO, ''Formatting output as string''),
    (DEBUG, ''Command stdout: out''),
    (WARNING, ''Command stderr: login ***** failed''),
    (DEBUG, ''Command return code: 1''),
    (ERROR, ''Command finished with non zero (1): login hunter2 failed'')]"
  by code_simp

text \<open>
  C3, as the code has it. When \<open>subprocess.run\<close> has returned the \<open>CompletedProcess\<close> of
  a process that ended with an exit code that is not zero, both captured streams decode
  (to \<open>out\<close> and \<open>err\<close>), and \<open>ignore_error\<close> is true, \<open>run_command\<close> raises nothing and
  returns: the \<open>CompletedProcess\<close> when the format is \<open>cpobj\<close>, and otherwise the decoded
  standard output followed by the annotation, which holds the exit code and the standard
  error as it was decoded.
\<close>

theorem ignored_failure_returns_annotated_output:
  assumes "argument_vector cmd = Some command"
      and "subprocess_run env command timeout (forwarded_kwargs kw) = Inr cp"
      and "decode env (stdout cp) = Inr out"
      and "decode env (stderr cp) = Inr err"
      and "returncode cp \<noteq> 0"
      and "ignore_error"
  shows "result (run_command env cmd timeout out_format secrets ignore_error kw) =
           (if select_out_format out_format kw = PStr ''cpobj'' then Inr (RCp cp)
            else Inr (RVal (PStr (out @ error_annotation (returncode cp) err))))
         \<and> sublist (str_int (returncode cp)) (error_annotation (returncode cp) err)
         \<and> sublist err (error_annotation (returncode cp) err)"
  using assms
  by (simp add: run_command_completed nonzero_exit_def sublist_annotation_rc
      sublist_annotation_err)

theorem ignored_failure_returns_annotated_output_witness:
  "argument_vector (PStr ''cat f'') = Some [PStr ''cat'', PStr ''f'']
   \<and> subprocess_run (process_env 1 ''out'' ''boom'') [PStr ''cat'', PStr ''f''] (PInt 600)
        (forwarded_kwargs Map.empty) =
      Inr \<lparr>args = [PStr ''cat'', PStr ''f''], returncode = 1,
           stdout = Bytes ''out'', stderr = Bytes ''boom''\<rparr>
   \<and> decode (process_env 1 ''out'' ''boom'') (Bytes ''out'') = Inr ''out''
   \<and> decode (process_env 1 ''out'' ''boom'') (Bytes ''boom'') = Inr ''boom''
   \<and> result (run_command (process_env 1 ''out'' ''boom'') (PStr ''cat f'') (PInt 600) (PStr ''string'')
        PNone True Map.empty) = Inr (RVal (PStr ''outError in command (1): boom''))"
proof -
  let ?env = "process_env 1 ''out'' ''boom''"
  let ?cp = "\<lparr>args = [PStr ''cat'', PStr ''f''], returncode = 1,
           stdout = Bytes ''out'', stderr = Bytes ''boom''\<rparr>"
  have av: "argument_vector (PStr ''cat f'') = Some [PStr ''cat'', PStr ''f'']"
    by code_simp
  have run: "subprocess_run ?env [PStr ''cat'', PStr ''f''] (PInt 600) (forwarded_kwargs Map.empty) =
      Inr ?cp"
    by (simp add: process_env_def)
  have d1: "decode ?env (stdout ?cp) = Inr ''out''"
    by (simp add: process_env_def)
  have d2: "decode ?env (stderr ?cp) = Inr ''boom''"
    by (simp add: process_env_def)
  have rc: "returncode ?cp \<noteq> 0"
    by simp
  have fmt: "select_out_format (PStr ''string'') Map.empty \<noteq> PStr ''cpobj''"
    by (simp add: select_out_format_def)
  have ann: "''out'' @ error_annotation (returncode ?cp) ''boom'' = ''outError in command (1): boom''"
    by code_simp
  from ignored_failure_returns_annotated_output
         [OF av run d1 d2 rc, of True "PStr ''string''" PNone] fmt
  have "result (run_command ?env (PStr ''cat f'') (PInt 600) (PStr ''string'') PNone True Map.empty) =
      Inr (RVal (PStr (''out'' @ error_annotation (returncode ?cp) ''boom'')))"
    by simp
  then have "result (run_command ?env (PStr ''cat f'') (PInt 600) (PStr ''string'') PNone True Map.empty) =
      Inr (RVal (PStr ''outError in command (1): boom''))"
    unfolding ann .
  with av run d1 d2 show ?thesis by simp
qed

text \<open>
  C3, as the claim has it, fails: \<open>ignore_error\<close> is read on line 124, after the streams
  are decoded on lines 103 and 104. A process that ends with exit code 1 and has written
  the byte 0xff to its standard output makes \<open>run_command\<close> raise \<open>UnicodeDecodeError\<close>
  although \<open>ignore_error\<close> is true.
\<close>

theorem undecodable_stdout_raises_despite_ignore_error:
  "subprocess_run (process_env 1 [CHR 0xFF] ''boom'') [PStr ''ls''] (PInt 600)
     (forwarded_kwargs Map.empty) =
   Inr \<lparr>args = [PStr ''ls''], returncode = 1, stdout = Bytes [CHR 0xFF], stderr = Bytes ''boom''\<rparr>
   \<and> result (run_command (process_env 1 [CHR 0xFF] ''boom'') (PStr ''ls'') (PInt 600) (PStr ''string'')
        PNone True Map.empty) = Inl UnicodeDecodeError"
  by code_simp

text \<open>
  C4 (the code drops a line). With the format \<open>list\<close> and exit code 0, the standard output
  \<open>a\nb\<close>, which does not end with a newline, comes back as the one line \<open>a\<close>: \<open>pop\<close> on
  line 141 removes the last piece whether it is empty or not.
\<close>

theorem list_format_drops_last_line:
  "result (run_command (process_env 0 ''a\<newline>b'' '''') (PStr ''ls'') (PInt 600) (PStr ''list'') PNone False
     Map.empty) = Inr (RVal (PList [PStr ''a'']))"
  by code_simp

text \<open>
  C5. For a \<open>cmd\<close> that is neither a \<open>str\<close> nor a \<open>list\<close>, \<open>run_command\<close> returns the text
  \<open>Error in command\<close>; it raises nothing and spawns no process.
\<close>

theorem invalid_cmd_returns_sentinel:
  assumes "\<not> is_str cmd" and "\<not> is_list cmd"
  shows "result (run_command env cmd timeout out_format secrets ignore_error kw) =
           Inr (RVal (PStr ''Error in command''))
         \<and> spawned (run_command env cmd timeout out_format secrets ignore_error kw) = []"
  using assms by (cases cmd) (simp_all add: run_command_def)

theorem invalid_cmd_returns_sentinel_witness:
  "\<not> is_str (PInt 42) \<and> \<not> is_list (PInt 42)
   \<and> result (run_command (process_env 0 '''' '''') (PInt 42) (PInt 600) (PStr ''string'') (PList [PStr ''x''])
        False Map.empty) = Inr (RVal (PStr ''Error in command''))
   \<and> spawned (run_command (process_env 0 '''' '''') (PInt 42) (PInt 600) (PStr ''string'') (PList [PStr ''x''])
        False Map.empty) = []"
proof -
  have a: "\<not> is_str (PInt 42)" and b: "\<not> is_list (PInt 42)"
    by simp_all
  from invalid_cmd_returns_sentinel [OF a b] a b show ?thesis by blast
qed


text \<open>
  C7, as the code has it. For the arguments of a well-formed command, the call with the
  command as one string (the arguments joined by spaces) and the call with the list of the
  arguments spawn the same process: the same argument vector, timeout and options. Their
  results are the same but for the text of a \<open>CommandFailed\<close>: both return the same
  value, or both raise the same error, where two \<open>CommandFailed\<close> may differ in their
  message.
\<close>

theorem string_and_list_same_invocation:
  assumes "well_formed_args toks"
  shows "spawned (run_command env (PStr (join_str '' '' toks)) timeout out_format secrets
                    ignore_error kw) =
         spawned (run_command env (PList (map PStr toks)) timeout out_format secrets
                    ignore_error kw)
       \<and> strip_message (result (run_command env (PStr (join_str '' '' toks)) timeout out_format
                                   secrets ignore_error kw)) =
         strip_message (result (run_command env (PList (map PStr toks)) timeout out_format
                                   secrets ignore_error kw))"
proof -
  have av: "argument_vector (PStr (join_str '' '' toks)) = argument_vector (PList (map PStr toks))"
    using assms by (simp add: split_ws_def split_ws_join)
  show ?thesis
    unfolding run_command_def Let_def av
    using strip_message_after_run
            [of env "mask_secrets env (PStr (join_str '' '' toks)) secrets" _ secrets ignore_error
                _ "mask_secrets env (PList (map PStr toks)) secrets"]
    by (simp split: sum.splits prod.splits) (metis fst_conv)
qed

theorem string_and_list_same_invocation_witness:
  "well_formed_args [''echo'', ''hi'']
   \<and> spawned (run_command (process_env 1 '''' ''boom'') (PStr (join_str '' '' [''echo'', ''hi'']))
        (PInt 600) (PStr ''string'') PNone False Map.empty) =
     spawned (run_command (process_env 1 '''' ''boom'') (PList (map PStr [''echo'', ''hi'']))
        (PInt 600) (PStr ''string'') PNone False Map.empty)
   \<and> strip_message (result (run_command (process_env 1 '''' ''boom'')
        (PStr (join_str '' '' [''echo'', ''hi''])) (PInt 600) (PStr ''string'') PNone False Map.empty)) =
     strip_message (result (run_command (process_env 1 '''' ''boom'')
        (PList (map PStr [''echo'', ''hi''])) (PInt 600) (PStr ''string'') PNone False Map.empty))"
proof -
  have h: "well_formed_args [''echo'', ''hi'']"
    by code_simp
  from string_and_list_same_invocation [OF h] h show ?thesis by blast
qed

text \<open>
  C7, as the claim has it, fails: when the process ends with exit code 1 and \<open>ignore_error\<close>
  is false, \<open>echo hi\<close> as a string and as the list of \<open>echo\<close> and \<open>hi\<close> raise
  \<open>CommandFailed\<close> with different messages. Line 126 formats the command as it was
  given: the string itself, or the \<open>repr\<close> of the list.
\<close>

theorem string_and_list_results_differ:
  "well_formed_args [''echo'', ''hi'']
   \<and> join_str '' '' [''echo'', ''hi''] = ''echo hi''
   \<and> result (run_command (process_env 1 '''' ''boom'') (PStr ''echo hi'') (PInt 600) (PStr ''string'')
        PNone False Map.empty) \<noteq>
     result (run_command (process_env 1 '''' ''boom'') (PList [PStr ''echo'', PStr ''hi'']) (PInt 600)
        (PStr ''string'') PNone False Map.empty)"
  by code_simp

text \<open>
  C8. With the format \<open>string\<close> and exit code 0, \<open>run_command\<close> returns the decoded
  standard output as it is, whatever the secrets and whatever \<open>mask_secrets\<close> does: no
  mask and no annotation.
\<close>

theorem string_format_returns_raw_stdout:
  assumes "argument_vector cmd = Some command"
      and "subprocess_run env command timeout (forwarded_kwargs kw) = Inr cp"
      and "decode env (stdout cp) = Inr out"
      and "decode env (stderr cp) = Inr err"
      and "returncode cp = 0"
      and "select_out_format out_format kw = PStr ''string''"
  shows "result (run_command env cmd timeout out_format secrets ignore_error kw) =
           Inr (RVal (PStr out))"
  using assms by (simp add: run_command_completed zero_exit_def bind_error_def)

theorem string_format_returns_raw_stdout_witness:
  "argument_vector (PStr ''show'') = Some [PStr ''show'']
   \<and> subprocess_run (process_env 0 ''token hunter2'' '''') [PStr ''show''] (PInt 600)
        (forwarded_kwargs Map.empty) =
      Inr \<lparr>args = [PStr ''show''], returncode = 0,
           stdout = Bytes ''token hunter2'', stderr = Bytes ''''\<rparr>
   \<and> decode (process_env 0 ''token hunter2'' '''') (Bytes ''token hunter2'') = Inr ''token hunter2''
   \<and> decode (process_env 0 ''token hunter2'' '''') (Bytes '''') = Inr ''''
   \<and> select_out_format (PStr ''string'') Map.empty = PStr ''string''
   \<and> result (run_command (process_env 0 ''token hunter2'' '''') (PStr ''show'') (PInt 600)
        (PStr ''string'') (PList [PStr ''hunter2'']) False Map.empty) =
      Inr (RVal (PStr ''token hunter2''))"
proof -
  let ?env = "process_env 0 ''token hunter2'' ''''"
  let ?cp = "\<lparr>args = [PStr ''show''], returncode = 0,
           stdout = Bytes ''token hunter2'', stderr = Bytes ''''\<rparr>"
  have av: "argument_vector (PStr ''show'') = Some [PStr ''show'']"
    by code_simp
  have run: "subprocess_run ?env [PStr ''show''] (PInt 600) (forwarded_kwargs Map.empty) = Inr ?cp"
    by (simp add: process_env_def)
  have d1: "decode ?env (stdout ?cp) = Inr ''token hunter2''"
    by (simp add: process_env_def)
  have d2: "decode ?env (stderr ?cp) = Inr ''''"
    by (simp add: process_env_def)
  have rc: "returncode ?cp = 0"
    by simp
  have fmt: "select_out_format (PStr ''string'') Map.empty = PStr ''string''"
    by (simp add: select_out_format_def)
  from string_format_returns_raw_stdout [OF av run d1 d2 rc fmt, of "PList [PStr ''hunter2'']" False]
    av run d1 d2 fmt
  show ?thesis by simp
qed

text \<open>
  C9. With the format \<open>exit_code\<close>, an integer that \<open>run_command\<close> returns is 0. When the
  process has ended and its streams decode, exit code 0 gives the integer 0, and another
  exit code gives the annotated text when \<open>ignore_error\<close> is true and \<open>CommandFailed\<close>
  when it is false: never the exit code.
\<close>

theorem exit_code_format_returns_zero:
  assumes "select_out_format out_format kw = PStr ''exit_code''"
  shows "(result (run_command env cmd timeout out_format secrets ignore_error kw) =
            Inr (RVal (PInt n)) \<longrightarrow> n = 0)
       \<and> (argument_vector cmd = Some command
          \<and> subprocess_run env command timeout (forwarded_kwargs kw) = Inr cp
          \<and> decode env (stdout cp) = Inr out \<and> decode env (stderr cp) = Inr err \<longrightarrow>
          result (run_command env cmd timeout out_format secrets ignore_error kw) =
            (if returncode cp = 0 then Inr (RVal (PInt 0))
             else if ignore_error
               then Inr (RVal (PStr (out @ error_annotation (returncode cp) err)))
               else Inl (CommandFailed (failure_message (mask_secrets env cmd secrets)
                                          (mask_secrets env (PStr err) secrets)))))"
proof (intro conjI impI)
  assume r: "result (run_command env cmd timeout out_format secrets ignore_error kw) =
            Inr (RVal (PInt n))"
  show "n = 0"
  proof (cases "argument_vector cmd")
    case None
    with r show ?thesis by (simp add: run_command_def)
  next
    case (Some command')
    show ?thesis
    proof (cases "subprocess_run env command' timeout (forwarded_kwargs kw)")
      case (Inl e)
      with r Some show ?thesis by (simp add: run_command_def)
    next
      case (Inr cp')
      with r Some assms
      have "fst (after_run env (mask_secrets env cmd secrets) (PStr ''exit_code'') secrets
                   ignore_error cp') = Inr (RVal (PInt n))"
        by (simp add: run_command_def Let_def select_force_pipes split: prod.splits)
      then show ?thesis by (rule after_run_exit_code_int)
    qed
  qed
next
  assume "argument_vector cmd = Some command
          \<and> subprocess_run env command timeout (forwarded_kwargs kw) = Inr cp
          \<and> decode env (stdout cp) = Inr out \<and> decode env (stderr cp) = Inr err"
  then show "result (run_command env cmd timeout out_format secrets ignore_error kw) =
            (if returncode cp = 0 then Inr (RVal (PInt 0))
             else if ignore_error
               then Inr (RVal (PStr (out @ error_annotation (returncode cp) err)))
               else Inl (CommandFailed (failure_message (mask_secrets env cmd secrets)
                                          (mask_secrets env (PStr err) secrets))))"
    using assms by (simp add: run_command_completed zero_exit_exit_code nonzero_exit_def)
qed

theorem exit_code_format_returns_zero_witness:
  "select_out_format (PStr ''exit_code'') Map.empty = PStr ''exit_code''
   \<and> result (run_command (process_env 0 ''out'' '''') (PStr ''true'') (PInt 600) (PStr ''exit_code'')
        PNone False Map.empty) = Inr (RVal (PInt 0))
   \<and> result (run_command (process_env 3 ''out'' ''boom'') (PStr ''false'') (PInt 600) (PStr ''exit_code'')
        PNone True Map.empty) = Inr (RVal (PStr ''outError in command (3): boom''))"
proof -
  let ?e0 = "process_env 0 ''out'' ''''" and ?e3 = "process_env 3 ''out'' ''boom''"
  let ?cp0 = "\<lparr>args = [PStr ''true''], returncode = 0, stdout = Bytes ''out'', stderr = Bytes ''''\<rparr>"
  let ?cp3 = "\<lparr>args = [PStr ''false''], returncode = 3, stdout = Bytes ''out'',
               stderr = Bytes ''boom''\<rparr>"
  have fmt: "select_out_format (PStr ''exit_code'') Map.empty = PStr ''exit_code''"
    by (simp add: select_out_format_def)
  have h0: "argument_vector (PStr ''true'') = Some [PStr ''true'']
      \<and> subprocess_run ?e0 [PStr ''true''] (PInt 600) (forwarded_kwargs Map.empty) = Inr ?cp0
      \<and> decode ?e0 (stdout ?cp0) = Inr ''out'' \<and> decode ?e0 (stderr ?cp0) = Inr ''''"
    by (simp add: process_env_def) code_simp
  have h3: "argument_vector (PStr ''false'') = Some [PStr ''false'']
      \<and> subprocess_run ?e3 [PStr ''false''] (PInt 600) (forwarded_kwargs Map.empty) = Inr ?cp3
      \<and> decode ?e3 (stdout ?cp3) = Inr ''out'' \<and> decode ?e3 (stderr ?cp3) = Inr ''boom''"
    by (simp add: process_env_def) code_simp
  have ann: "''out'' @ error_annotation 3 ''boom'' = ''outError in command (3): boom''"
    by code_simp
  from exit_code_format_returns_zero
         [OF fmt, of ?e0 "PStr ''true''" "PInt 600" PNone False 0 "[PStr ''true'']" ?cp0 "''out''" "''''"] h0
  have r0: "result (run_command ?e0 (PStr ''true'') (PInt 600) (PStr ''exit_code'') PNone False Map.empty) =
      Inr (RVal (PInt 0))"
    by simp
  from exit_code_format_returns_zero
         [OF fmt, of ?e3 "PStr ''false''" "PInt 600" PNone True 0 "[PStr ''false'']" ?cp3 "''out''"
             "''boom''"] h3
  have "result (run_command ?e3 (PStr ''false'') (PInt 600) (PStr ''exit_code'') PNone True Map.empty) =
      Inr (RVal (PStr (''out'' @ error_annotation 3 ''boom'')))"
    by simp
  then have r3: "result (run_command ?e3 (PStr ''false'') (PInt 600) (PStr ''exit_code'') PNone True
      Map.empty) = Inr (RVal (PStr ''outError in command (3): boom''))"
    unfolding ann .
  from fmt r0 r3 show ?thesis by blast
qed

text \<open>
  C10. Splitting a text on the newline gives at least one piece, so \<open>pop\<close> on line 141
  never raises: with the format \<open>list\<close> and exit code 0, \<open>run_command\<close> returns the
  pieces but the last, and for an empty standard output the empty list.
\<close>

theorem list_format_pop_never_fails:
  assumes "argument_vector cmd = Some command"
      and "subprocess_run env command timeout (forwarded_kwargs kw) = Inr cp"
      and "decode env (stdout cp) = Inr out"
      and "decode env (stderr cp) = Inr err"
      and "returncode cp = 0"
      and "select_out_format out_format kw = PStr ''list''"
  shows "split_sep CHR ''\<newline>'' out \<noteq> []
       \<and> result (run_command env cmd timeout out_format secrets ignore_error kw) =
           Inr (RVal (PList (map PStr (butlast (split_sep CHR ''\<newline>'' out)))))
       \<and> (out = [] \<longrightarrow>
           result (run_command env cmd timeout out_format secrets ignore_error kw) =
             Inr (RVal (PList [])))"
proof -
  have r: "result (run_command env cmd timeout out_format secrets ignore_error kw) =
           Inr (RVal (PList (map PStr (butlast (split_sep CHR ''\<newline>'' out)))))"
    using assms by (simp add: run_command_completed zero_exit_list)
  have e: "butlast (split_sep CHR ''\<newline>'' []) = []"
    by (simp add: split_sep_def)
  from r e show ?thesis
    by (auto simp add: split_sep_nonempty)
qed

theorem list_format_pop_never_fails_witness:
  "argument_vector (PStr ''true'') = Some [PStr ''true'']
   \<and> subprocess_run (process_env 0 '''' '''') [PStr ''true''] (PInt 600) (forwarded_kwargs Map.empty) =
      Inr \<lparr>args = [PStr ''true''], returncode = 0, stdout = Bytes '''', stderr = Bytes ''''\<rparr>
   \<and> decode (process_env 0 '''' '''') (Bytes '''') = Inr ''''
   \<and> select_out_format (PStr ''list'') Map.empty = PStr ''list''
   \<and> split_sep CHR ''\<newline>'' '''' \<noteq> []
   \<and> result (run_command (process_env 0 '''' '''') (PStr ''true'') (PInt 600) (PStr ''list'') PNone False
        Map.empty) = Inr (RVal (PList []))"
proof -
  let ?env = "process_env 0 '''' ''''"
  let ?cp = "\<lparr>args = [PStr ''true''], returncode = 0, stdout = Bytes '''', stderr = Bytes ''''\<rparr>"
  have av: "argument_vector (PStr ''true'') = Some [PStr ''true'']"
    by code_simp
  have run: "subprocess_run ?env [PStr ''true''] (PInt 600) (forwarded_kwargs Map.empty) = Inr ?cp"
    by (simp add: process_env_def)
  have d1: "decode ?env (stdout ?cp) = Inr ''''"
    by (simp add: process_env_def)
  have d2: "decode ?env (stderr ?cp) = Inr ''''"
    by (simp add: process_env_def)
  have rc: "returncode ?cp = 0"
    by simp
  have fmt: "select_out_format (PStr ''list'') Map.empty = PStr ''list''"
    by (simp add: select_out_format_def)
  from list_format_pop_never_fails [OF av run d1 d2 rc fmt, of PNone False]
  have ne: "split_sep CHR ''\<newline>'' '''' \<noteq> []"
    and r: "result (run_command ?env (PStr ''true'') (PInt 600) (PStr ''list'') PNone False Map.empty) =
        Inr (RVal (PList []))"
    by (simp_all add: split_sep_def)
  from av run d1 fmt ne r show ?thesis by simp
qed

section \<open>What the binding leaves in \<open>kwargs\<close>\<close>

text \<open>
  Whatever the call, the dictionary \<open>kwargs\<close> the body starts with does not hold the key
  \<open>out_format\<close>: the test on line 97 is false, the format used is the value the parameter
  is bound to, and the options forwarded are \<open>kwargs\<close> with the three pipes.
\<close>

theorem kwargs_never_holds_out_format:
  assumes "bind_arguments positional keywords = Inr b"
  shows "b_kwargs b ''out_format'' = None
       \<and> select_out_format (b_out_format b) (force_pipes (b_kwargs b)) = b_out_format b
       \<and> forwarded_kwargs (b_kwargs b) = force_pipes (b_kwargs b)"
proof -
  have "b_kwargs b = (\<lambda>k. if k \<in> set parameter_names then None else keywords k)"
    using assms unfolding bind_arguments_def Let_def
    by (auto split: if_splits option.splits)
  then have k: "b_kwargs b ''out_format'' = None"
    by (simp add: parameter_names_def)
  then show ?thesis
    by (simp add: select_force_pipes select_out_format_def forwarded_kwargs_def force_pipes_def)
qed

theorem kwargs_never_holds_out_format_witness:
  "bind_arguments [PStr ''ls''] [''out_format'' \<mapsto> PStr ''list'', ''cwd'' \<mapsto> PStr ''/tmp''] =
     Inr \<lparr>b_cmd = PStr ''ls'', b_timeout = PInt 600, b_out_format = PStr ''list'',
          b_secrets = PNone, b_ignore_error = PBool False,
          b_kwargs = [''cwd'' \<mapsto> PStr ''/tmp'']\<rparr>
   \<and> [''cwd'' \<mapsto> PStr ''/tmp''] ''out_format'' = None
   \<and> select_out_format (PStr ''list'') (force_pipes [''cwd'' \<mapsto> PStr ''/tmp'']) = PStr ''list''"
proof -
  have kw: "(\<lambda>k. if k \<in> set parameter_names then None
                 else [''out_format'' \<mapsto> PStr ''list'', ''cwd'' \<mapsto> PStr ''/tmp''] k) =
            [''cwd'' \<mapsto> PStr ''/tmp'']"
    by (rule ext) (simp add: parameter_names_def)
  have h: "bind_arguments [PStr ''ls''] [''out_format'' \<mapsto> PStr ''list'', ''cwd'' \<mapsto> PStr ''/tmp''] =
     Inr \<lparr>b_cmd = PStr ''ls'', b_timeout = PInt 600, b_out_format = PStr ''list'',
          b_secrets = PNone, b_ignore_error = PBool False,
          b_kwargs = [''cwd'' \<mapsto> PStr ''/tmp'']\<rparr>"
    unfolding bind_arguments_def Let_def kw
    by (simp add: parameter_names_def or_default_def)
  from kwargs_never_holds_out_format [OF h] h show ?thesis by simp
qed

text \<open>
  A keyword \<open>out_format\<close> without a positional one is bound to the parameter: the call is
  the body on that format, with the defaults for the rest and an empty \<open>kwargs\<close>.
\<close>

theorem keyword_out_format_is_bound:
  "call_run_command env [cmd] [''out_format'' \<mapsto> v] =
     run_command env cmd (PInt 600) v PNone False Map.empty"
proof -
  have kw: "(\<lambda>k. if k \<in> set parameter_names then None else [''out_format'' \<mapsto> v] k) = Map.empty"
    by (rule ext) (simp add: parameter_names_def)
  show ?thesis
    unfolding call_run_command_def bind_arguments_def Let_def kw
    by (simp add: parameter_names_def or_default_def)
qed

end
